theory Spec2Isabelle
  imports Main "HOL-Library.Sublist"
begin

section \<open>Errors\<close>

text \<open>
  A Go \<^verbatim>\<open>error\<close> value. The sentinel errors of the sources are constructors of their
  own (\<^verbatim>\<open>ErrUnsupportedDatabaseType\<close> of package dbs, \<^verbatim>\<open>logical.ErrPermissionDenied\<close>);
  \<^verbatim>\<open>Errorf f s e\<close> is the value of \<^verbatim>\<open>fmt.Errorf(f, s, e)\<close> for a format \<open>f\<close> with two
  verbs, a string \<open>s\<close> and an error \<open>e\<close>; \<^verbatim>\<open>External\<close> is any error handed in by a
  collaborator outside the modelled files (storage, the decoder, the channel, a backend
  implementation), identified by its message.
  \<^verbatim>\<open>NotFoundConfig\<close> is the specification's name for the storage layer's report of a
  missing database configuration.
\<close>

datatype error =
    ErrUnsupportedDatabaseType
  | ErrPermissionDenied
  | NotFoundConfig
  | Errorf string string error
  | External string

section \<open>Package dbs: the factory\<close>

definition postgreSQLTypeName :: string where
  "postgreSQLTypeName = ''postgres''"

definition cassandraTypeName :: string where
  "cassandraTypeName = ''cassandra''"

text \<open>
  \<^verbatim>\<open>DatabaseConfig\<close> of package dbs. \<^verbatim>\<open>ConnectionDetails\<close> is a
  \<^verbatim>\<open>map[string]interface{}\<close>, opaque to the factory: the type parameter \<open>'m\<close>.
  The pool values are only stored.
\<close>

record 'm DatabaseConfig =
  DatabaseType :: string
  ConnectionDetails :: 'm
  MaxOpenConnections :: int
  MaxIdleConnections :: int
  MaxConnectionLifetime :: int

text \<open>
  The structs the factory fills. The decoded connection details
  (\<^verbatim>\<open>sqlConnectionDetails\<close>, \<^verbatim>\<open>cassandraConnectionDetails\<close>) are declared in files that are not
  modelled here: the type parameters \<open>'sd\<close> and \<open>'cd\<close>.
\<close>

datatype ('m, 'sd) sqlConnectionProducer =
  sqlConnectionProducer "'m DatabaseConfig" 'sd

datatype sqlCredentialsProducer =
  sqlCredentialsProducer (displayNameLen: int) (usernameLen: int)

datatype ('m, 'cd) cassandraConnectionProducer =
  cassandraConnectionProducer "'m DatabaseConfig" 'cd

datatype cassandraCredentialsProducer =
  cassandraCredentialsProducer

datatype ('m, 'sd, 'cd) DatabaseType =
    PostgreSQL "('m, 'sd) sqlConnectionProducer" sqlCredentialsProducer
  | Cassandra "('m, 'cd) cassandraConnectionProducer" cassandraCredentialsProducer

text \<open>
  \<^verbatim>\<open>Factory\<close>. The result is Go's pair \<^verbatim>\<open>(DatabaseType, error)\<close>: \<open>None\<close> is \<^verbatim>\<open>nil\<close>.
  \<^verbatim>\<open>mapstructure.Decode\<close> is a library call; its outcome on the connection details is
  the parameter \<open>decodeSQL\<close> (\<open>decodeCassandra\<close>): \<open>Inl\<close> its error, \<open>Inr\<close> the
  decoded details. The \<^verbatim>\<open>switch\<close> compares the whole string. The function is modelled
  on a configuration; Go would panic on a nil pointer to one.
\<close>

definition Factory ::
  "('m \<Rightarrow> error + 'sd) \<Rightarrow> ('m \<Rightarrow> error + 'cd) \<Rightarrow> 'm DatabaseConfig
     \<Rightarrow> ('m, 'sd, 'cd) DatabaseType option \<times> error option" where
  "Factory decodeSQL decodeCassandra conf =
     (if DatabaseType conf = postgreSQLTypeName then
        (case decodeSQL (ConnectionDetails conf) of
           Inl err \<Rightarrow> (None, Some err)
         | Inr details \<Rightarrow>
             (Some (PostgreSQL (sqlConnectionProducer conf details)
                               (sqlCredentialsProducer 23 63)), None))
      else if DatabaseType conf = cassandraTypeName then
        (case decodeCassandra (ConnectionDetails conf) of
           Inl err \<Rightarrow> (None, Some err)
         | Inr details \<Rightarrow>
             (Some (Cassandra (cassandraConnectionProducer conf details)
                              cassandraCredentialsProducer), None))
      else (None, Some ErrUnsupportedDatabaseType))"

text \<open>
  A decoder for the examples: the connection details are a list of key/value pairs and
  decoding needs the key \<^verbatim>\<open>connection_url\<close>.
\<close>

definition decodeURL :: "(string \<times> string) list \<Rightarrow> error + string" where
  "decodeURL m =
     (case map_of m ''connection_url'' of
        None \<Rightarrow> Inl (External ''connection_url is missing'')
      | Some u \<Rightarrow> Inr u)"

definition exampleConfig :: "string \<Rightarrow> (string \<times> string) list \<Rightarrow> (string \<times> string) list DatabaseConfig" where
  "exampleConfig t m =
     \<lparr>DatabaseType = t, ConnectionDetails = m, MaxOpenConnections = 2,
      MaxIdleConnections = 1, MaxConnectionLifetime = 0\<rparr>"

section \<open>Package dbs: statement templates\<close>

text \<open>
  \<^verbatim>\<open>strings.Replace(s, old, new, -1)\<close> of Go's library, on byte strings: the text is read
  from the left; where \<open>old\<close> starts, \<open>new\<close> is written and the scan goes on behind that
  occurrence, otherwise one byte is copied. With an empty \<open>old\<close> Go writes \<open>new\<close> around
  every character; \<^verbatim>\<open>queryHelper\<close> never asks for that (its pattern holds four braces)
  and the model returns \<open>s\<close> there.
\<close>

function strings_Replace :: "string \<Rightarrow> string \<Rightarrow> string \<Rightarrow> string" where
  "strings_Replace s old new =
     (if s = [] \<or> old = [] then s
      else if prefix old s then new @ strings_Replace (drop (length old) s) old new
      else hd s # strings_Replace (tl s) old new)"
  by pat_completeness auto
termination
  by (relation "measure (\<lambda>(s, old, new). length s)") auto

declare strings_Replace.simps [simp del]

text \<open>\<^verbatim>\<open>fmt.Sprintf("{{%s}}", k)\<close>.\<close>

definition Sprintf_token :: "string \<Rightarrow> string" where
  "Sprintf_token k = ''{{'' @ k @ ''}}''"

text \<open>
  \<^verbatim>\<open>queryHelper\<close>. The second argument is the Go map as the \<^verbatim>\<open>range\<close> loop walks it: its
  entries in the order of the iteration, which the Go runtime chooses anew for every
  loop. A list stands for a map when its keys are distinct.
\<close>

fun queryHelper :: "string \<Rightarrow> (string \<times> string) list \<Rightarrow> string" where
  "queryHelper tpl [] = tpl"
| "queryHelper tpl ((k, v) # data) =
     queryHelper (strings_Replace tpl (Sprintf_token k) v) data"

text \<open>
  Templates in parsed form, to state what substitution does on well-formed input: a
  template is literal text and tokens; \<open>render\<close> gives its string. A literal is
  well-formed when it holds no opening brace, a key when it holds no brace at all.
\<close>

datatype segment = Lit string | Tok string

fun render_segment :: "segment \<Rightarrow> string" where
  "render_segment (Lit t) = t"
| "render_segment (Tok k) = Sprintf_token k"

definition render :: "segment list \<Rightarrow> string" where
  "render segs = concat (map render_segment segs)"

definition no_open :: "string \<Rightarrow> bool" where
  "no_open s = (CHR ''{'' \<notin> set s)"

definition plain_key :: "string \<Rightarrow> bool" where
  "plain_key k = (CHR ''{'' \<notin> set k \<and> CHR ''}'' \<notin> set k)"

fun wf_segment :: "segment \<Rightarrow> bool" where
  "wf_segment (Lit t) = no_open t"
| "wf_segment (Tok k) = plain_key k"

fun wf_entry :: "string \<times> string \<Rightarrow> bool" where
  "wf_entry (k, v) = (plain_key k \<and> no_open v)"

text \<open>
  Substitution of all keys at once: a token whose key the map holds becomes the value as
  it is, every other token and all literal text stay.
\<close>

fun expand :: "(string \<rightharpoonup> string) \<Rightarrow> segment \<Rightarrow> string" where
  "expand m (Lit t) = t"
| "expand m (Tok k) = (case m k of Some v \<Rightarrow> v | None \<Rightarrow> Sprintf_token k)"

fun subst1 :: "string \<Rightarrow> string \<Rightarrow> segment \<Rightarrow> segment" where
  "subst1 k v (Lit t) = Lit t"
| "subst1 k v (Tok k') = (if k' = k then Lit v else Tok k')"

definition createUserTemplate :: "segment list" where
  "createUserTemplate =
     [Lit ''CREATE USER '', Tok ''name'', Lit '' WITH PASSWORD '', Tok ''password'']"


section \<open>Package dbs: the plugin protocol\<close>

text \<open>
  Modelled from the spec: the \<^verbatim>\<open>Statements\<close> bundle, whose declaration is in a file that is
  not modelled here: the named template strings for creation, revocation, rollback and renewal.
\<close>

record Statements =
  CreationStatements :: string
  RevocationStatements :: string
  RollbackStatements :: string
  RenewStatements :: string

text \<open>
  The request and response records of the protocol. The fields are, in this order:
  \<^verbatim>\<open>CreateUserRequest{Statements, Username, Password, Expiration}\<close>,
  \<^verbatim>\<open>RenewUserRequest{Statements, Username, Expiration}\<close>,
  \<^verbatim>\<open>RevokeUserRequest{Statements, Username}\<close>, and one string in each response.
\<close>

datatype CreateUserRequest = CreateUserRequest Statements string string string

datatype RenewUserRequest = RenewUserRequest Statements string string

datatype RevokeUserRequest = RevokeUserRequest Statements string

datatype GenerateUsernameResponse = GenerateUsernameResponse string

datatype GenerateExpirationResponse = GenerateExpirationResponse string

datatype GeneratePasswordResponse = GeneratePasswordResponse string

text \<open>
  An implementation of the \<^verbatim>\<open>DatabaseType\<close> interface with the methods plugin.go calls
  on it. A method acts on the state \<open>'w\<close> of the database behind it and returns Go's
  results, \<open>None\<close> for a nil error. \<open>'m\<close> is the \<^verbatim>\<open>map[string]interface{}\<close> of
  \<^verbatim>\<open>Initialize\<close>; a \<^verbatim>\<open>time.Duration\<close> is its count of nanoseconds.
\<close>

record ('w, 'm) DatabaseTypeImpl =
  Type :: "'w \<Rightarrow> string \<times> 'w"
  CreateUser :: "Statements \<Rightarrow> string \<Rightarrow> string \<Rightarrow> string \<Rightarrow> 'w \<Rightarrow> error option \<times> 'w"
  RenewUser :: "Statements \<Rightarrow> string \<Rightarrow> string \<Rightarrow> 'w \<Rightarrow> error option \<times> 'w"
  RevokeUser :: "Statements \<Rightarrow> string \<Rightarrow> 'w \<Rightarrow> error option \<times> 'w"
  Initialize :: "'m \<Rightarrow> 'w \<Rightarrow> error option \<times> 'w"
  Close :: "'w \<Rightarrow> error option \<times> 'w"
  GenerateUsername :: "string \<Rightarrow> 'w \<Rightarrow> (string \<times> error option) \<times> 'w"
  GeneratePassword :: "'w \<Rightarrow> (string \<times> error option) \<times> 'w"
  GenerateExpiration :: "int \<Rightarrow> 'w \<Rightarrow> (string \<times> error option) \<times> 'w"

subsection \<open>The server stubs\<close>

text \<open>
  \<^verbatim>\<open>databasePluginRPCServer\<close> holds the implementation. A stub with a response pointer
  returns the response it wrote together with its error.
\<close>

definition databasePluginRPCServer_Type ::
  "('w, 'm) DatabaseTypeImpl \<Rightarrow> 'w \<Rightarrow> (string \<times> error option) \<times> 'w" where
  "databasePluginRPCServer_Type impl w =
     (let (resp, w') = Type impl w in ((resp, None), w'))"

definition databasePluginRPCServer_CreateUser ::
  "('w, 'm) DatabaseTypeImpl \<Rightarrow> CreateUserRequest \<Rightarrow> 'w \<Rightarrow> error option \<times> 'w" where
  "databasePluginRPCServer_CreateUser impl args w =
     (case args of CreateUserRequest statements username password expiration \<Rightarrow>
        (let (err, w') = CreateUser impl statements username password expiration w
         in (err, w')))"

definition databasePluginRPCServer_RenewUser ::
  "('w, 'm) DatabaseTypeImpl \<Rightarrow> RenewUserRequest \<Rightarrow> 'w \<Rightarrow> error option \<times> 'w" where
  "databasePluginRPCServer_RenewUser impl args w =
     (case args of RenewUserRequest statements username expiration \<Rightarrow>
        (let (err, w') = RenewUser impl statements username expiration w
         in (err, w')))"

definition databasePluginRPCServer_RevokeUser ::
  "('w, 'm) DatabaseTypeImpl \<Rightarrow> RevokeUserRequest \<Rightarrow> 'w \<Rightarrow> error option \<times> 'w" where
  "databasePluginRPCServer_RevokeUser impl args w =
     (case args of RevokeUserRequest statements username \<Rightarrow>
        (let (err, w') = RevokeUser impl statements username w
         in (err, w')))"

definition databasePluginRPCServer_Initialize ::
  "('w, 'm) DatabaseTypeImpl \<Rightarrow> 'm \<Rightarrow> 'w \<Rightarrow> error option \<times> 'w" where
  "databasePluginRPCServer_Initialize impl args w =
     (let (err, w') = Initialize impl args w in (err, w'))"

text \<open>The stub calls the implementation's \<^verbatim>\<open>Close\<close>, drops what it returns and returns nil.\<close>

definition databasePluginRPCServer_Close ::
  "('w, 'm) DatabaseTypeImpl \<Rightarrow> 'w \<Rightarrow> error option \<times> 'w" where
  "databasePluginRPCServer_Close impl w =
     (let (_, w') = Close impl w in (None, w'))"

definition databasePluginRPCServer_GenerateUsername ::
  "('w, 'm) DatabaseTypeImpl \<Rightarrow> string \<Rightarrow> 'w \<Rightarrow> (GenerateUsernameResponse \<times> error option) \<times> 'w" where
  "databasePluginRPCServer_GenerateUsername impl args w =
     (let ((username, err), w') = GenerateUsername impl args w
      in ((GenerateUsernameResponse username, err), w'))"

definition databasePluginRPCServer_GeneratePassword ::
  "('w, 'm) DatabaseTypeImpl \<Rightarrow> 'w \<Rightarrow> (GeneratePasswordResponse \<times> error option) \<times> 'w" where
  "databasePluginRPCServer_GeneratePassword impl w =
     (let ((password, err), w') = GeneratePassword impl w
      in ((GeneratePasswordResponse password, err), w'))"

definition databasePluginRPCServer_GenerateExpiration ::
  "('w, 'm) DatabaseTypeImpl \<Rightarrow> int \<Rightarrow> 'w \<Rightarrow> (GenerateExpirationResponse \<times> error option) \<times> 'w" where
  "databasePluginRPCServer_GenerateExpiration impl args w =
     (let ((expiration, err), w') = GenerateExpiration impl args w
      in ((GenerateExpirationResponse expiration, err), w'))"

subsection \<open>The connection\<close>

text \<open>
  What crosses the connection: the argument and the reply of
  \<^verbatim>\<open>rpc.Client.Call(method, args, reply)\<close>, one constructor for each Go type the stubs pass.
\<close>

datatype 'm rpc_args =
    EmptyArgs
  | CreateUserArgs CreateUserRequest
  | RenewUserArgs RenewUserRequest
  | RevokeUserArgs RevokeUserRequest
  | ConfArgs 'm
  | StringArgs string
  | DurationArgs int

datatype rpc_reply =
    EmptyReply
  | StringReply string
  | UsernameReply GenerateUsernameResponse
  | PasswordReply GeneratePasswordResponse
  | ExpirationReply GenerateExpirationResponse

text \<open>
  The host's side of a plugin: \<open>remote\<close> is the state beyond the connection (the plugin
  process and its database), \<open>journal\<close> lists what the host did to the plugin, in order:
  the calls it sent and the kills of the process.
\<close>

datatype 'm plugin_event = Sent string "'m rpc_args" | Killed

record ('w, 'm) host =
  remote :: 'w
  journal :: "'m plugin_event list"

text \<open>
  An \<^verbatim>\<open>rpc.Client\<close> is known by what a call does: from the method name, the argument,
  the reply value the caller holds and the remote state it gives the reply after the
  call, the call's error and the new remote state. A \<^verbatim>\<open>plugin.Client\<close> is known by what
  its \<^verbatim>\<open>Kill\<close> does to the remote state; \<^verbatim>\<open>Kill\<close> returns nothing.
\<close>

type_synonym ('w, 'm) rpc_Client =
  "string \<Rightarrow> 'm rpc_args \<Rightarrow> rpc_reply \<Rightarrow> 'w \<Rightarrow> (rpc_reply \<times> error option) \<times> 'w"

type_synonym 'w plugin_Client = "'w \<Rightarrow> 'w"

definition rpc_Client_Call ::
  "('w, 'm) rpc_Client \<Rightarrow> string \<Rightarrow> 'm rpc_args \<Rightarrow> rpc_reply \<Rightarrow> ('w, 'm) host
     \<Rightarrow> (rpc_reply \<times> error option) \<times> ('w, 'm) host" where
  "rpc_Client_Call c serviceMethod args reply h =
     (let (out, w') = c serviceMethod args reply (remote h)
      in (out, h\<lparr>remote := w', journal := journal h @ [Sent serviceMethod args]\<rparr>))"

definition plugin_Client_Kill :: "'w plugin_Client \<Rightarrow> ('w, 'm) host \<Rightarrow> ('w, 'm) host" where
  "plugin_Client_Kill c h = h\<lparr>remote := c (remote h), journal := journal h @ [Killed]\<rparr>"

subsection \<open>The client stubs\<close>

text \<open>
  A reply is read back at the Go type of the pointer that was passed; a reply of another
  shape cannot arrive there and reads as the value the stub started with.
\<close>

definition databasePluginRPCClient_Type ::
  "('w, 'm) rpc_Client \<Rightarrow> ('w, 'm) host \<Rightarrow> string \<times> ('w, 'm) host" where
  "databasePluginRPCClient_Type client h =
     (let ((reply, _), h') = rpc_Client_Call client ''Plugin.Type'' EmptyArgs (StringReply []) h;
          dbType = (case reply of StringReply s \<Rightarrow> s | _ \<Rightarrow> [])
      in (''plugin-'' @ dbType, h'))"

definition databasePluginRPCClient_CreateUser ::
  "('w, 'm) rpc_Client \<Rightarrow> Statements \<Rightarrow> string \<Rightarrow> string \<Rightarrow> string \<Rightarrow> ('w, 'm) host
     \<Rightarrow> error option \<times> ('w, 'm) host" where
  "databasePluginRPCClient_CreateUser client statements username password expiration h =
     (let req = CreateUserRequest statements username password expiration;
          ((_, err), h') = rpc_Client_Call client ''Plugin.CreateUser'' (CreateUserArgs req) EmptyReply h
      in (err, h'))"

definition databasePluginRPCClient_RenewUser ::
  "('w, 'm) rpc_Client \<Rightarrow> Statements \<Rightarrow> string \<Rightarrow> string \<Rightarrow> ('w, 'm) host
     \<Rightarrow> error option \<times> ('w, 'm) host" where
  "databasePluginRPCClient_RenewUser client statements username expiration h =
     (let req = RenewUserRequest statements username expiration;
          ((_, err), h') = rpc_Client_Call client ''Plugin.RenewUser'' (RenewUserArgs req) EmptyReply h
      in (err, h'))"

definition databasePluginRPCClient_RevokeUser ::
  "('w, 'm) rpc_Client \<Rightarrow> Statements \<Rightarrow> string \<Rightarrow> ('w, 'm) host
     \<Rightarrow> error option \<times> ('w, 'm) host" where
  "databasePluginRPCClient_RevokeUser client statements username h =
     (let req = RevokeUserRequest statements username;
          ((_, err), h') = rpc_Client_Call client ''Plugin.RevokeUser'' (RevokeUserArgs req) EmptyReply h
      in (err, h'))"

definition databasePluginRPCClient_Initialize ::
  "('w, 'm) rpc_Client \<Rightarrow> 'm \<Rightarrow> ('w, 'm) host \<Rightarrow> error option \<times> ('w, 'm) host" where
  "databasePluginRPCClient_Initialize client conf h =
     (let ((_, err), h') = rpc_Client_Call client ''Plugin.Initialize'' (ConfArgs conf) EmptyReply h
      in (err, h'))"

definition databasePluginRPCClient_Close ::
  "('w, 'm) rpc_Client \<Rightarrow> ('w, 'm) host \<Rightarrow> error option \<times> ('w, 'm) host" where
  "databasePluginRPCClient_Close client h =
     (let ((_, err), h') = rpc_Client_Call client ''Plugin.Close'' EmptyArgs EmptyReply h
      in (err, h'))"

definition databasePluginRPCClient_GenerateUsername ::
  "('w, 'm) rpc_Client \<Rightarrow> string \<Rightarrow> ('w, 'm) host \<Rightarrow> (string \<times> error option) \<times> ('w, 'm) host" where
  "databasePluginRPCClient_GenerateUsername client displayName h =
     (let ((resp, err), h') =
            rpc_Client_Call client ''Plugin.GenerateUsername'' (StringArgs displayName)
              (UsernameReply (GenerateUsernameResponse [])) h;
          username = (case resp of UsernameReply (GenerateUsernameResponse u) \<Rightarrow> u | _ \<Rightarrow> [])
      in ((username, err), h'))"

definition databasePluginRPCClient_GeneratePassword ::
  "('w, 'm) rpc_Client \<Rightarrow> ('w, 'm) host \<Rightarrow> (string \<times> error option) \<times> ('w, 'm) host" where
  "databasePluginRPCClient_GeneratePassword client h =
     (let ((resp, err), h') =
            rpc_Client_Call client ''Plugin.GeneratePassword'' EmptyArgs
              (PasswordReply (GeneratePasswordResponse [])) h;
          password = (case resp of PasswordReply (GeneratePasswordResponse p) \<Rightarrow> p | _ \<Rightarrow> [])
      in ((password, err), h'))"

definition databasePluginRPCClient_GenerateExpiration ::
  "('w, 'm) rpc_Client \<Rightarrow> int \<Rightarrow> ('w, 'm) host \<Rightarrow> (string \<times> error option) \<times> ('w, 'm) host" where
  "databasePluginRPCClient_GenerateExpiration client duration h =
     (let ((resp, err), h') =
            rpc_Client_Call client ''Plugin.GenerateExpiration'' (DurationArgs duration)
              (ExpirationReply (GenerateExpirationResponse [])) h;
          expiration = (case resp of ExpirationReply (GenerateExpirationResponse e) \<Rightarrow> e | _ \<Rightarrow> [])
      in ((expiration, err), h'))"

text \<open>
  \<^verbatim>\<open>DatabasePluginClient\<close>: the \<^verbatim>\<open>plugin.Client\<close> of the process and the embedded RPC client.
  Its \<^verbatim>\<open>Close\<close> calls the embedded \<^verbatim>\<open>Close\<close>, then \<^verbatim>\<open>Kill\<close>, and returns the first one's
  error.
\<close>

record ('w, 'm) DatabasePluginClient =
  client :: "'w plugin_Client"
  databasePluginRPCClient :: "('w, 'm) rpc_Client"

definition DatabasePluginClient_Close ::
  "('w, 'm) DatabasePluginClient \<Rightarrow> ('w, 'm) host \<Rightarrow> error option \<times> ('w, 'm) host" where
  "DatabasePluginClient_Close dc h =
     (let (err, h1) = databasePluginRPCClient_Close (databasePluginRPCClient dc) h;
          h2 = plugin_Client_Kill (client dc) h1
      in (err, h2))"

subsection \<open>A connection that reaches the server stubs\<close>

text \<open>
  The connection of a plugin whose transport does not fail: the method name selects the
  server stub, the stub runs on the implementation, and its error comes back. As in
  \<^verbatim>\<open>net/rpc\<close>, the reply is written to the caller only when the stub returned no error,
  and a method name or an argument the server does not know is an error of the call.
\<close>

definition deliver :: "rpc_reply \<Rightarrow> rpc_reply \<Rightarrow> error option \<Rightarrow> rpc_reply \<times> error option" where
  "deliver reply resp err = (case err of None \<Rightarrow> (resp, None) | Some e \<Rightarrow> (reply, Some e))"

definition unknown_call :: "rpc_reply \<Rightarrow> 'w \<Rightarrow> (rpc_reply \<times> error option) \<times> 'w" where
  "unknown_call reply w = ((reply, Some (External ''rpc: unknown method or argument'')), w)"

definition served_by :: "('w, 'm) DatabaseTypeImpl \<Rightarrow> ('w, 'm) rpc_Client" where
  "served_by impl serviceMethod args reply w =
     (if serviceMethod = ''Plugin.Type'' then
        (case args of
           EmptyArgs \<Rightarrow>
             (let ((resp, err), w') = databasePluginRPCServer_Type impl w
              in (deliver reply (StringReply resp) err, w'))
         | _ \<Rightarrow> unknown_call reply w)
      else if serviceMethod = ''Plugin.CreateUser'' then
        (case args of
           CreateUserArgs req \<Rightarrow>
             (let (err, w') = databasePluginRPCServer_CreateUser impl req w
              in (deliver reply EmptyReply err, w'))
         | _ \<Rightarrow> unknown_call reply w)
      else if serviceMethod = ''Plugin.RenewUser'' then
        (case args of
           RenewUserArgs req \<Rightarrow>
             (let (err, w') = databasePluginRPCServer_RenewUser impl req w
              in (deliver reply EmptyReply err, w'))
         | _ \<Rightarrow> unknown_call reply w)
      else if serviceMethod = ''Plugin.RevokeUser'' then
        (case args of
           RevokeUserArgs req \<Rightarrow>
             (let (err, w') = databasePluginRPCServer_RevokeUser impl req w
              in (deliver reply EmptyReply err, w'))
         | _ \<Rightarrow> unknown_call reply w)
      else if serviceMethod = ''Plugin.Initialize'' then
        (case args of
           ConfArgs conf \<Rightarrow>
             (let (err, w') = databasePluginRPCServer_Initialize impl conf w
              in (deliver reply EmptyReply err, w'))
         | _ \<Rightarrow> unknown_call reply w)
      else if serviceMethod = ''Plugin.Close'' then
        (case args of
           EmptyArgs \<Rightarrow>
             (let (err, w') = databasePluginRPCServer_Close impl w
              in (deliver reply EmptyReply err, w'))
         | _ \<Rightarrow> unknown_call reply w)
      else if serviceMethod = ''Plugin.GenerateUsername'' then
        (case args of
           StringArgs displayName \<Rightarrow>
             (let ((resp, err), w') = databasePluginRPCServer_GenerateUsername impl displayName w
              in (deliver reply (UsernameReply resp) err, w'))
         | _ \<Rightarrow> unknown_call reply w)
      else if serviceMethod = ''Plugin.GeneratePassword'' then
        (case args of
           EmptyArgs \<Rightarrow>
             (let ((resp, err), w') = databasePluginRPCServer_GeneratePassword impl w
              in (deliver reply (PasswordReply resp) err, w'))
         | _ \<Rightarrow> unknown_call reply w)
      else if serviceMethod = ''Plugin.GenerateExpiration'' then
        (case args of
           DurationArgs duration \<Rightarrow>
             (let ((resp, err), w') = databasePluginRPCServer_GenerateExpiration impl duration w
              in (deliver reply (ExpirationReply resp) err, w'))
         | _ \<Rightarrow> unknown_call reply w)
      else unknown_call reply w)"

text \<open>
  An implementation for the examples. Its state is the list of users of the database;
  \<^verbatim>\<open>CreateUser\<close> refuses a name that exists, and \<^verbatim>\<open>Close\<close> reports that connections were
  still open.
\<close>

definition stubImpl :: "(string list, (string \<times> string) list) DatabaseTypeImpl" where
  "stubImpl =
     \<lparr>Type = (\<lambda>w. (''postgres'', w)),
      CreateUser = (\<lambda>statements username password expiration w.
         if username \<in> set w then (Some (External ''role exists''), w)
         else (None, username # w)),
      RenewUser = (\<lambda>statements username expiration w.
         if username \<in> set w then (None, w) else (Some (External ''no such role''), w)),
      RevokeUser = (\<lambda>statements username w.
         if username \<in> set w then (None, removeAll username w)
         else (Some (External ''no such role''), w)),
      Initialize = (\<lambda>conf w.
         case map_of conf ''connection_url'' of
           None \<Rightarrow> (Some (External ''connection_url is missing''), w)
         | Some u \<Rightarrow> (None, w)),
      Close = (\<lambda>w. (Some (External ''connections still open''), w)),
      GenerateUsername = (\<lambda>displayName w. ((''v-'' @ displayName, None), w)),
      GeneratePassword = (\<lambda>w. ((''A1a-generated'', None), w)),
      GenerateExpiration = (\<lambda>duration w. ((''2024-01-01T00:00:00Z'', None), w))\<rparr>"

text \<open>
  A connection whose calls all fail in transit, and a process whose state is whether it
  runs: \<^verbatim>\<open>Kill\<close> stops it.
\<close>

definition brokenChannel :: "(bool, (string \<times> string) list) rpc_Client" where
  "brokenChannel serviceMethod args reply w =
     ((reply, Some (External ''connection is shut down'')), w)"

definition brokenPlugin :: "(bool, (string \<times> string) list) DatabasePluginClient" where
  "brokenPlugin = \<lparr>client = (\<lambda>running. False), databasePluginRPCClient = brokenChannel\<rparr>"

section \<open>Package database: the credentials path\<close>

text \<open>
  What a Go function gives back: its results, or a panic (here: a nil pointer is read).
\<close>

datatype 'a go_result = Return 'a | Panic

text \<open>\<^verbatim>\<open>strutil.StrListContains\<close> of the Vault helpers: some item equals the needle.\<close>

fun StrListContains :: "string list \<Rightarrow> string \<Rightarrow> bool" where
  "StrListContains [] needle = False"
| "StrListContains (item # haystack) needle =
     (if item = needle then True else StrListContains haystack needle)"

text \<open>
  The role and the database configuration of this package, with the fields the handler
  reads. Their declarations are in files that are not modelled here. A \<^verbatim>\<open>time.Duration\<close> is its
  count of nanoseconds, a \<^verbatim>\<open>time.Time\<close> an instant on the same scale.
\<close>

record roleEntry =
  DBName :: string
  Statements :: Statements
  DefaultTTL :: int

record database_DatabaseConfig =
  AllowedRoles :: "string list"

text \<open>
  The database object the handler gets from the backend. Its \<^verbatim>\<open>CreateUser\<close> is called
  with the statements, a display name and the expiration, and returns a username, a
  password and an error (line 67 of the handler); \<^verbatim>\<open>GenerateUsername\<close> and
  \<^verbatim>\<open>GeneratePassword\<close> are the contract's methods. \<open>'b\<close> is the state the backend and its
  databases hold.
\<close>

record 'b dbObj =
  db_CreateUser :: "Statements \<Rightarrow> string \<Rightarrow> int \<Rightarrow> 'b \<Rightarrow> (string \<times> string \<times> error option) \<times> 'b"
  db_GenerateUsername :: "string \<Rightarrow> 'b \<Rightarrow> (string \<times> error option) \<times> 'b"
  db_GeneratePassword :: "'b \<Rightarrow> (string \<times> error option) \<times> 'b"

text \<open>
  The methods of \<^verbatim>\<open>databaseBackend\<close> the handler calls; their bodies are in files that are not
  modelled here, so the handler is modelled for every behaviour they can have. A result pair is
  Go's \<^verbatim>\<open>(pointer, error)\<close>. \<open>'s\<close> is the request's storage.
\<close>

record ('s, 'b) databaseBackend =
  b_Role :: "'s \<Rightarrow> string \<Rightarrow> roleEntry option \<times> error option"
  b_DatabaseConfig :: "'s \<Rightarrow> string \<Rightarrow> database_DatabaseConfig option \<times> error option"
  b_getOrCreateDBObj :: "'s \<Rightarrow> string \<Rightarrow> 'b \<Rightarrow> ('b dbObj option \<times> error option) \<times> 'b"

record 's Request =
  Storage :: 's
  DisplayName :: string

text \<open>
  The response: \<^verbatim>\<open>logical.ErrorResponse(text)\<close>, or the secret response built from the
  payload map and the internal map, with the TTL the handler stores in it.
\<close>

datatype Response =
    ErrorResponse string
  | SecretResponse "string \<rightharpoonup> string" "string \<rightharpoonup> string" int

text \<open>
  What the handler does beyond returning, in order: taking and releasing the backend's
  lock, asking for the database object, calling \<^verbatim>\<open>CreateUser\<close> on it.
\<close>

datatype action =
    Lock
  | Unlock
  | GetOrCreateDBObj string
  | CreateUserCall Statements string int

text \<open>
  The function \<^verbatim>\<open>pathCredsCreateRead\<close> returns, applied to a request, the field
  \<^verbatim>\<open>name\<close>, the clock's \<^verbatim>\<open>time.Now()\<close> and the backend's state. The result is what the
  Go function returns (or its panic), the backend's state afterwards, and the actions
  taken. The deferred \<^verbatim>\<open>Unlock\<close> runs on every way out after \<^verbatim>\<open>Lock\<close>.
\<close>

definition pathCredsCreateRead ::
  "('s, 'b) databaseBackend \<Rightarrow> int \<Rightarrow> 's Request \<Rightarrow> string \<Rightarrow> 'b
     \<Rightarrow> (Response option \<times> error option) go_result \<times> 'b \<times> action list" where
  "pathCredsCreateRead b now req name st =
     (case b_Role b (Storage req) name of
        (_, Some err) \<Rightarrow> (Return (None, Some err), st, [])
      | (None, None) \<Rightarrow>
          (Return (Some (ErrorResponse (''unknown role: '' @ name)), None), st, [])
      | (Some role, None) \<Rightarrow>
          (case b_DatabaseConfig b (Storage req) (DBName role) of
             (_, Some err) \<Rightarrow> (Return (None, Some err), st, [])
           | (None, None) \<Rightarrow> (Panic, st, [])
           | (Some dbConfig, None) \<Rightarrow>
               if \<not> StrListContains (AllowedRoles dbConfig) ''*''
                  \<and> \<not> StrListContains (AllowedRoles dbConfig) name
               then (Return (None, Some ErrPermissionDenied), st, [])
               else
                 (case b_getOrCreateDBObj b (Storage req) (DBName role) st of
                    ((_, Some err), st1) \<Rightarrow>
                      (Return (None, Some (Errorf
                         ''cound not retrieve db with name: %s, got error: %s'' (DBName role) err)),
                       st1, [Lock, GetOrCreateDBObj (DBName role), Unlock])
                  | ((None, None), st1) \<Rightarrow>
                      (Panic, st1, [Lock, GetOrCreateDBObj (DBName role), Unlock])
                  | ((Some db, None), st1) \<Rightarrow>
                      (let expiration = now + DefaultTTL role;
                           called = [Lock, GetOrCreateDBObj (DBName role),
                                     CreateUserCall (Statements role) (DisplayName req) expiration,
                                     Unlock]
                       in case db_CreateUser db (Statements role) (DisplayName req) expiration st1 of
                            ((username, password, Some err), st2) \<Rightarrow>
                              (Return (None, Some err), st2, called)
                          | ((username, password, None), st2) \<Rightarrow>
                              (Return (Some (SecretResponse
                                 [''username'' \<mapsto> username, ''password'' \<mapsto> password]
                                 [''username'' \<mapsto> username, ''role'' \<mapsto> name]
                                 (DefaultTTL role)), None),
                               st2, called)))))"

text \<open>
  Modelled from the spec: the storage and the backend's configuration lookup
  \<^verbatim>\<open>DatabaseConfig\<close>, whose body is in a file that is not modelled here. Storage maps names to roles
  and to database configurations; the lookup gives the configuration of a name, or
  the error \<^verbatim>\<open>NotFoundConfig\<close> for a name storage does not hold.
\<close>

record storage =
  roles :: "string \<rightharpoonup> roleEntry"
  configs :: "string \<rightharpoonup> database_DatabaseConfig"

definition getDatabaseConfig ::
  "storage \<Rightarrow> string \<Rightarrow> database_DatabaseConfig option \<times> error option" where
  "getDatabaseConfig s name =
     (case configs s name of
        None \<Rightarrow> (None, Some NotFoundConfig)
      | Some config \<Rightarrow> (Some config, None))"

text \<open>
  A backend over that storage: the configuration lookup above, any role lookup and any
  way of getting the database object.
\<close>

definition backend_over ::
  "(storage \<Rightarrow> string \<Rightarrow> roleEntry option \<times> error option)
     \<Rightarrow> (storage \<Rightarrow> string \<Rightarrow> 'b \<Rightarrow> ('b dbObj option \<times> error option) \<times> 'b)
     \<Rightarrow> (storage, 'b) databaseBackend" where
  "backend_over role getOrCreate =
     \<lparr>b_Role = role, b_DatabaseConfig = getDatabaseConfig, b_getOrCreateDBObj = getOrCreate\<rparr>"

subsection \<open>Example values\<close>

definition exampleStatements :: Statements where
  "exampleStatements =
     \<lparr>CreationStatements = ''CREATE USER {{name}} WITH PASSWORD {{password}}'',
      RevocationStatements = ''DROP USER {{name}}'',
      RollbackStatements = ''DROP USER {{name}}'',
      RenewStatements = ''ALTER USER {{name}} VALID UNTIL {{expiration}}''\<rparr>"

definition exampleRole :: roleEntry where
  "exampleRole = \<lparr>DBName = ''pg'', Statements = exampleStatements, DefaultTTL = 3600\<rparr>"

definition exampleStorage :: "string list \<Rightarrow> storage" where
  "exampleStorage allowed =
     \<lparr>roles = [''readonly'' \<mapsto> exampleRole],
      configs = [''pg'' \<mapsto> \<lparr>AllowedRoles = allowed\<rparr>]\<rparr>"

definition danglingStorage :: storage where
  "danglingStorage = \<lparr>roles = [''readonly'' \<mapsto> exampleRole], configs = Map.empty\<rparr>"

definition getRole :: "storage \<Rightarrow> string \<Rightarrow> roleEntry option \<times> error option" where
  "getRole s name = (roles s name, None)"

text \<open>
  A database object that answers \<^verbatim>\<open>CreateUser\<close> with the user alice and records the
  display name it was called with; its \<^verbatim>\<open>GenerateUsername\<close> prefixes the display name.
\<close>

definition stubDB :: "string list dbObj" where
  "stubDB =
     \<lparr>db_CreateUser = (\<lambda>statements displayName expiration st.
         ((''alice'', ''p@ss'', None), displayName # st)),
      db_GenerateUsername = (\<lambda>displayName st. ((''v-'' @ displayName, None), st)),
      db_GeneratePassword = (\<lambda>st. ((''A1a-generated'', None), st))\<rparr>"

definition stubGetOrCreate ::
  "storage \<Rightarrow> string \<Rightarrow> string list \<Rightarrow> (string list dbObj option \<times> error option) \<times> string list" where
  "stubGetOrCreate s name st = ((Some stubDB, None), st)"

definition exampleBackend :: "(storage, string list) databaseBackend" where
  "exampleBackend = backend_over getRole stubGetOrCreate"

definition exampleRequest :: "string list \<Rightarrow> storage Request" where
  "exampleRequest allowed = \<lparr>Storage = exampleStorage allowed, DisplayName = ''token-web''\<rparr>"

section \<open>Properties of the factory\<close>

text \<open>
  C4. The factory selects by equality of the type discriminator with \<^verbatim>\<open>postgres\<close> or
  \<^verbatim>\<open>cassandra\<close>. With decodable details the first gives a PostgreSQL handle and the
  second a Cassandra handle, each with a nil error; a decode failure gives no handle and
  the decoder's error; every other discriminator gives no handle and
  \<^verbatim>\<open>ErrUnsupportedDatabaseType\<close>.
\<close>

theorem Factory_selection:
  "(DatabaseType conf = ''postgres'' \<longrightarrow> decS (ConnectionDetails conf) = Inr sd \<longrightarrow>
      Factory decS decC conf =
        (Some (PostgreSQL (sqlConnectionProducer conf sd) (sqlCredentialsProducer 23 63)), None))
   \<and> (DatabaseType conf = ''cassandra'' \<longrightarrow> decC (ConnectionDetails conf) = Inr cd \<longrightarrow>
      Factory decS decC conf =
        (Some (Cassandra (cassandraConnectionProducer conf cd) cassandraCredentialsProducer), None))
   \<and> (DatabaseType conf = ''postgres'' \<longrightarrow> decS (ConnectionDetails conf) = Inl e \<longrightarrow>
      Factory decS decC conf = (None, Some e))
   \<and> (DatabaseType conf = ''cassandra'' \<longrightarrow> decC (ConnectionDetails conf) = Inl e \<longrightarrow>
      Factory decS decC conf = (None, Some e))
   \<and> (DatabaseType conf \<noteq> ''postgres'' \<longrightarrow> DatabaseType conf \<noteq> ''cassandra'' \<longrightarrow>
      Factory decS decC conf = (None, Some ErrUnsupportedDatabaseType))"
  by (simp add: Factory_def postgreSQLTypeName_def cassandraTypeName_def)

theorem Factory_selection_witness:
  "Factory decodeURL decodeURL (exampleConfig ''postgres'' [(''connection_url'', ''pg://db'')]) =
     (Some (PostgreSQL
        (sqlConnectionProducer (exampleConfig ''postgres'' [(''connection_url'', ''pg://db'')]) ''pg://db'')
        (sqlCredentialsProducer 23 63)), None)
   \<and> Factory decodeURL decodeURL (exampleConfig ''cassandra'' [(''connection_url'', ''cs://db'')]) =
     (Some (Cassandra
        (cassandraConnectionProducer (exampleConfig ''cassandra'' [(''connection_url'', ''cs://db'')]) ''cs://db'')
        cassandraCredentialsProducer), None)
   \<and> Factory decodeURL decodeURL (exampleConfig ''postgres'' []) =
     (None, Some (External ''connection_url is missing''))
   \<and> Factory decodeURL decodeURL (exampleConfig ''cassandra'' []) =
     (None, Some (External ''connection_url is missing''))
   \<and> Factory decodeURL decodeURL (exampleConfig ''unknown'' [(''connection_url'', ''pg://db'')]) =
     (None, Some ErrUnsupportedDatabaseType)"
proof -
  have pg: "DatabaseType (exampleConfig ''postgres'' m) = ''postgres''" for m
    by (simp add: exampleConfig_def)
  have cs: "DatabaseType (exampleConfig ''cassandra'' m) = ''cassandra''" for m
    by (simp add: exampleConfig_def)
  have un: "DatabaseType (exampleConfig ''unknown'' m) \<noteq> ''postgres''
            \<and> DatabaseType (exampleConfig ''unknown'' m) \<noteq> ''cassandra''" for m
    by (simp add: exampleConfig_def)
  have d1: "decodeURL (ConnectionDetails (exampleConfig t [(''connection_url'', u)])) = Inr u" for t u
    by (simp add: exampleConfig_def decodeURL_def)
  have d2: "decodeURL (ConnectionDetails (exampleConfig t [])) = Inl (External ''connection_url is missing'')" for t
    by (simp add: exampleConfig_def decodeURL_def)
  note F = Factory_selection [where decS = decodeURL and decC = decodeURL]
  show ?thesis
    using F [of "exampleConfig ''postgres'' [(''connection_url'', ''pg://db'')]" "''pg://db''"]
          F [of "exampleConfig ''cassandra'' [(''connection_url'', ''cs://db'')]" _ "''cs://db''"]
          F [of "exampleConfig ''postgres'' []" _ _ "External ''connection_url is missing''"]
          F [of "exampleConfig ''cassandra'' []" _ _ "External ''connection_url is missing''"]
          F [of "exampleConfig ''unknown'' [(''connection_url'', ''pg://db'')]"]
          pg cs un d1 d2
    by simp
qed

section \<open>Properties of the statement templates\<close>

lemma Replace_Nil: "strings_Replace [] old new = []"
  by (simp add: strings_Replace.simps)

lemma Replace_match:
  "old \<noteq> [] \<Longrightarrow> strings_Replace (old @ r) old new = new @ strings_Replace r old new"
  by (subst strings_Replace.simps) simp

lemma Replace_skip:
  "old \<noteq> [] \<Longrightarrow> \<not> prefix old (c # s) \<Longrightarrow>
   strings_Replace (c # s) old new = c # strings_Replace s old new"
  by (subst strings_Replace.simps) simp

text \<open>A pattern that starts with an opening brace finds nothing in text without one.\<close>

lemma Replace_no_open:
  "no_open t \<Longrightarrow>
   strings_Replace (t @ r) (CHR ''{'' # old) new = t @ strings_Replace r (CHR ''{'' # old) new"
proof (induction t)
  case Nil
  then show ?case by simp
next
  case (Cons c t)
  then have "c \<noteq> CHR ''{''" and "no_open t" by (auto simp: no_open_def)
  then show ?case using Cons.IH by (simp add: Replace_skip)
qed

text \<open>Two tokens with plain keys, one at the start of the other's text, have the same key.\<close>

lemma token_prefix_eq:
  assumes "plain_key k" "plain_key k'" "prefix (Sprintf_token k) (Sprintf_token k' @ r)"
  shows "k = k'"
proof -
  have upto: "takeWhile (\<lambda>c. c \<noteq> CHR ''}'') (x @ CHR ''}'' # y) = x" if "plain_key x" for x y
    using that by (induction x) (auto simp: plain_key_def)
  from assms(3) obtain zs where "k' @ ''}}'' @ r = k @ ''}}'' @ zs"
    by (auto simp: prefix_def Sprintf_token_def)
  then have "takeWhile (\<lambda>c. c \<noteq> CHR ''}'') (k' @ ''}}'' @ r)
             = takeWhile (\<lambda>c. c \<noteq> CHR ''}'') (k @ ''}}'' @ zs)"
    by simp
  then show ?thesis using assms(1,2) by (simp add: upto)
qed

lemma Replace_other_token:
  assumes "plain_key k" "plain_key k'" "k' \<noteq> k"
  shows "strings_Replace (Sprintf_token k' @ r) (Sprintf_token k) v
         = Sprintf_token k' @ strings_Replace r (Sprintf_token k) v"
proof -
  let ?old = "Sprintf_token k"
  have old: "?old = CHR ''{'' # CHR ''{'' # k @ ''}}''" by (simp add: Sprintf_token_def)
  have n0: "\<not> prefix ?old (CHR ''{'' # CHR ''{'' # k' @ ''}}'' @ r)"
    using token_prefix_eq [OF assms(1,2), of r] assms(3) by (auto simp: Sprintf_token_def)
  have n1: "\<not> prefix ?old (CHR ''{'' # k' @ ''}}'' @ r)"
    using assms(2) by (cases k') (auto simp: old plain_key_def)
  have no: "no_open (k' @ ''}}'')" using assms(2) by (simp add: no_open_def plain_key_def)
  have "strings_Replace (Sprintf_token k' @ r) ?old v
        = CHR ''{'' # CHR ''{'' # strings_Replace ((k' @ ''}}'') @ r) ?old v"
    using n0 n1 by (simp add: Replace_skip Sprintf_token_def)
  also have "\<dots> = CHR ''{'' # CHR ''{'' # (k' @ ''}}'') @ strings_Replace r ?old v"
    using Replace_no_open [OF no] unfolding old by simp
  finally show ?thesis by (simp add: Sprintf_token_def)
qed

text \<open>One replacement on a well-formed template is \<open>subst1\<close> on its segments.\<close>

lemma Replace_render:
  assumes "plain_key k" "no_open v"
  shows "list_all wf_segment segs \<Longrightarrow>
         strings_Replace (render segs) (Sprintf_token k) v = render (map (subst1 k v) segs)"
proof (induction segs)
  case Nil
  then show ?case by (simp add: render_def Replace_Nil)
next
  case (Cons seg segs)
  then have IH: "strings_Replace (render segs) (Sprintf_token k) v = render (map (subst1 k v) segs)"
    by simp
  show ?case
  proof (cases seg)
    case (Lit t)
    with Cons.prems have "no_open t" by simp
    from Replace_no_open [OF this, of "render segs" "CHR ''{'' # k @ ''}}''" v] IH Lit
    show ?thesis by (simp add: render_def Sprintf_token_def)
  next
    case (Tok k')
    with Cons.prems have pk: "plain_key k'" by simp
    show ?thesis
    proof (cases "k' = k")
      case True
      have "Sprintf_token k \<noteq> []" by (simp add: Sprintf_token_def)
      from Replace_match [OF this, of "render segs" v] IH Tok True
      show ?thesis by (simp add: render_def)
    next
      case False
      from Replace_other_token [OF assms(1) pk False, of "render segs" v] IH Tok False
      show ?thesis by (simp add: render_def)
    qed
  qed
qed

lemma wf_subst1:
  "no_open v \<Longrightarrow> list_all wf_segment segs \<Longrightarrow> list_all wf_segment (map (subst1 k v) segs)"
proof (induction segs)
  case Nil
  then show ?case by simp
next
  case (Cons seg segs)
  then show ?case by (cases seg) auto
qed

lemma expand_subst1: "expand m (subst1 k v seg) = expand (m(k \<mapsto> v)) seg"
  by (cases seg) auto

text \<open>
  On a well-formed template and well-formed entries, the loop of \<open>queryHelper\<close> computes
  the substitution of all keys at once.
\<close>

lemma queryHelper_render:
  "list_all wf_segment segs \<Longrightarrow> list_all wf_entry data \<Longrightarrow>
   queryHelper (render segs) data = concat (map (expand (map_of data)) segs)"
proof (induction data arbitrary: segs)
  case Nil
  have "render_segment = expand Map.empty"
  proof
    fix seg show "render_segment seg = expand Map.empty seg" by (cases seg) auto
  qed
  then show ?case by (simp add: render_def)
next
  case (Cons kv data)
  obtain k v where kv: "kv = (k, v)" by (cases kv)
  with Cons.prems have pk: "plain_key k" and nv: "no_open v"
    and rest: "list_all wf_entry data" by auto
  have "queryHelper (render segs) (kv # data) = queryHelper (render (map (subst1 k v) segs)) data"
    using Replace_render [OF pk nv Cons.prems(1)] kv by simp
  also have "\<dots> = concat (map (expand (map_of data)) (map (subst1 k v) segs))"
    using Cons.IH [OF wf_subst1 [OF nv Cons.prems(1)] rest] .
  also have "\<dots> = concat (map (expand (map_of (kv # data))) segs)"
    by (simp add: kv expand_subst1 comp_def)
  finally show ?case .
qed

lemma wf_createUserTemplate: "list_all wf_segment createUserTemplate"
  by (simp add: createUserTemplate_def no_open_def plain_key_def)


text \<open>
  C8, as the claim states it, fails: the two orders of the map
  \<^verbatim>\<open>{a: "{{b}}", b: "x"}\<close> give different results on the template \<^verbatim>\<open>{{a}}\<close>, since the value
  written for \<^verbatim>\<open>a\<close> is itself replaced when \<^verbatim>\<open>b\<close> comes later.
\<close>

theorem queryHelper_order_counterexample:
  "set [(''a'', ''{{b}}''), (''b'', ''x'')] = set [(''b'', ''x''), (''a'', ''{{b}}'')]
   \<and> distinct (map fst [(''a'', ''{{b}}''), (''b'', ''x'')])
   \<and> queryHelper ''{{a}}'' [(''a'', ''{{b}}''), (''b'', ''x'')] = ''x''
   \<and> queryHelper ''{{a}}'' [(''b'', ''x''), (''a'', ''{{b}}'')] = ''{{b}}''"
  by code_simp

text \<open>
  C8, amended. For a well-formed template (literal text without an opening brace, and
  tokens whose keys hold no brace) and a map whose keys hold no brace and whose values
  hold no opening brace, any two orders of walking the map give the same string, and
  that string is the template with every token whose key the map holds replaced by the
  map's value exactly as it is, nothing escaped or quoted and no value substituted
  again, and all other text unchanged; and for every key and value, whatever they hold,
  the token of the key alone is replaced by the value as it is.
\<close>

theorem queryHelper_order_independent:
  assumes "list_all wf_segment segs" and "list_all wf_entry data"
    and "distinct (map fst data)" and "distinct (map fst data')" and "set data' = set data"
  shows "queryHelper (render segs) data' = queryHelper (render segs) data
         \<and> queryHelper (render segs) data = concat (map (expand (map_of data)) segs)
         \<and> queryHelper (Sprintf_token k) [(k, v)] = v"
proof -
  from assms(2,5) have wf': "list_all wf_entry data'" by (simp add: list_all_iff)
  from assms(3,4,5) have "map_of data' = map_of data" by (simp add: map_of_inject_set)
  then have "queryHelper (render segs) data' = queryHelper (render segs) data"
    by (simp add: queryHelper_render [OF assms(1) wf'] queryHelper_render [OF assms(1,2)])
  moreover have "queryHelper (render segs) data = concat (map (expand (map_of data)) segs)"
    by (rule queryHelper_render [OF assms(1,2)])
  moreover have "queryHelper (Sprintf_token k) [(k, v)] = v"
    using Replace_match [of "Sprintf_token k" "[]" v]
    by (simp add: Replace_Nil Sprintf_token_def)
  ultimately show ?thesis by simp
qed

theorem queryHelper_order_independent_witness:
  "render createUserTemplate = ''CREATE USER {{name}} WITH PASSWORD {{password}}''
   \<and> queryHelper ''CREATE USER {{name}} WITH PASSWORD {{password}}''
        [(''password'', ''p@ss''), (''name'', ''x'; DROP TABLE t; --'')]
     = queryHelper ''CREATE USER {{name}} WITH PASSWORD {{password}}''
        [(''name'', ''x'; DROP TABLE t; --''), (''password'', ''p@ss'')]
   \<and> queryHelper ''CREATE USER {{name}} WITH PASSWORD {{password}}''
        [(''name'', ''x'; DROP TABLE t; --''), (''password'', ''p@ss'')]
     = ''CREATE USER x'; DROP TABLE t; -- WITH PASSWORD p@ss''
   \<and> queryHelper ''{{name}}'' [(''name'', ''{{name}}'')] = ''{{name}}''"
proof -
  have r: "render createUserTemplate = ''CREATE USER {{name}} WITH PASSWORD {{password}}''"
    by (simp add: render_def createUserTemplate_def Sprintf_token_def)
  have e: "list_all wf_entry [(''name'', ''x'; DROP TABLE t; --''), (''password'', ''p@ss'')]"
    by (simp add: no_open_def plain_key_def)
  have x: "concat (map (expand (map_of [(''name'', ''x'; DROP TABLE t; --''), (''password'', ''p@ss'')]))
                     createUserTemplate)
           = ''CREATE USER x'; DROP TABLE t; -- WITH PASSWORD p@ss''"
    by (simp add: createUserTemplate_def)
  have t: "Sprintf_token ''name'' = ''{{name}}''"
    by (simp add: Sprintf_token_def)
  from queryHelper_order_independent
         [OF wf_createUserTemplate e,
          of "[(''password'', ''p@ss''), (''name'', ''x'; DROP TABLE t; --'')]"
             "''name''" "''{{name}}''"]
  show ?thesis unfolding r x t by auto
qed




section \<open>Properties of the plugin protocol\<close>

lemmas server_stub_defs =
  databasePluginRPCServer_Type_def databasePluginRPCServer_CreateUser_def
  databasePluginRPCServer_RenewUser_def databasePluginRPCServer_RevokeUser_def
  databasePluginRPCServer_Initialize_def databasePluginRPCServer_Close_def
  databasePluginRPCServer_GenerateUsername_def databasePluginRPCServer_GeneratePassword_def
  databasePluginRPCServer_GenerateExpiration_def

text \<open>
  C5. Whatever the remote \<^verbatim>\<open>Close\<close> call gives, \<^verbatim>\<open>DatabasePluginClient.Close\<close> sends that
  call, then kills the process, and returns the call's error and nothing else: the
  journal grows by the call and the kill, in this order, the remote state is the one the
  kill leaves, and the error is the call's, for every behaviour of the kill.
\<close>

theorem DatabasePluginClient_Close_kills:
  assumes "databasePluginRPCClient dc ''Plugin.Close'' EmptyArgs EmptyReply (remote h)
             = ((reply, err), w')"
  shows "DatabasePluginClient_Close dc h =
           (err, h\<lparr>remote := client dc w',
                   journal := journal h @ [Sent ''Plugin.Close'' EmptyArgs, Killed]\<rparr>)"
  using assms
  by (simp add: DatabasePluginClient_Close_def databasePluginRPCClient_Close_def
        rpc_Client_Call_def plugin_Client_Kill_def)

theorem DatabasePluginClient_Close_kills_witness:
  "DatabasePluginClient_Close brokenPlugin \<lparr>remote = True, journal = []\<rparr> =
     (Some (External ''connection is shut down''),
      \<lparr>remote = False, journal = [Sent ''Plugin.Close'' EmptyArgs, Killed]\<rparr>)"
proof -
  have "databasePluginRPCClient brokenPlugin ''Plugin.Close'' EmptyArgs EmptyReply
          (remote \<lparr>remote = True, journal = []\<rparr>)
        = ((EmptyReply, Some (External ''connection is shut down'')), True)"
    by (simp add: brokenPlugin_def brokenChannel_def)
  from DatabasePluginClient_Close_kills [OF this]
  show ?thesis by (simp add: brokenPlugin_def)
qed

text \<open>
  The server stubs of \<^verbatim>\<open>CreateUser\<close>, \<^verbatim>\<open>RenewUser\<close>, \<^verbatim>\<open>RevokeUser\<close> and \<^verbatim>\<open>Initialize\<close> call
  the implementation with the fields of the request and return what it returns.
\<close>

lemma server_stubs_return_error:
  "databasePluginRPCServer_CreateUser impl (CreateUserRequest s u p e) w = CreateUser impl s u p e w"
  "databasePluginRPCServer_RenewUser impl (RenewUserRequest s u e) w = RenewUser impl s u e w"
  "databasePluginRPCServer_RevokeUser impl (RevokeUserRequest s u) w = RevokeUser impl s u w"
  "databasePluginRPCServer_Initialize impl conf w = Initialize impl conf w"
  by (simp_all add: server_stub_defs split_beta)

text \<open>
  C6 fails on \<^verbatim>\<open>Close\<close>: the implementation's \<^verbatim>\<open>Close\<close> returns an error, and the server
  stub's \<^verbatim>\<open>Close\<close> returns nil.
\<close>

theorem databasePluginRPCServer_Close_drops_error:
  "Close stubImpl [] = (Some (External ''connections still open''), [])
   \<and> databasePluginRPCServer_Close stubImpl [] = (None, [])"
  by (simp add: databasePluginRPCServer_Close_def stubImpl_def)

text \<open>
  C7, as the claim states it, fails: the implementation's \<^verbatim>\<open>Type()\<close> is \<^verbatim>\<open>postgres\<close>, and
  through the client stub it is \<^verbatim>\<open>plugin-postgres\<close>.
\<close>

theorem proxied_Type_counterexample:
  "fst (Type stubImpl []) = ''postgres''
   \<and> fst (databasePluginRPCClient_Type (served_by stubImpl) \<lparr>remote = [], journal = []\<rparr>)
       = ''plugin-postgres''"
  by (simp add: databasePluginRPCClient_Type_def rpc_Client_Call_def served_by_def
        databasePluginRPCServer_Type_def deliver_def stubImpl_def)

lemma proxied_Type:
  "fst (databasePluginRPCClient_Type (served_by impl) h) = ''plugin-'' @ fst (Type impl (remote h))"
  "remote (snd (databasePluginRPCClient_Type (served_by impl) h)) = snd (Type impl (remote h))"
  by (simp_all add: databasePluginRPCClient_Type_def rpc_Client_Call_def served_by_def
        databasePluginRPCServer_Type_def deliver_def split_beta)

lemma proxied_CreateUser:
  "fst (databasePluginRPCClient_CreateUser (served_by impl) s u p e h)
     = fst (CreateUser impl s u p e (remote h))"
  "remote (snd (databasePluginRPCClient_CreateUser (served_by impl) s u p e h))
     = snd (CreateUser impl s u p e (remote h))"
  by (simp_all add: databasePluginRPCClient_CreateUser_def rpc_Client_Call_def served_by_def
        databasePluginRPCServer_CreateUser_def deliver_def split_beta split: option.splits)

lemma proxied_RenewUser:
  "fst (databasePluginRPCClient_RenewUser (served_by impl) s u e h)
     = fst (RenewUser impl s u e (remote h))"
  "remote (snd (databasePluginRPCClient_RenewUser (served_by impl) s u e h))
     = snd (RenewUser impl s u e (remote h))"
  by (simp_all add: databasePluginRPCClient_RenewUser_def rpc_Client_Call_def served_by_def
        databasePluginRPCServer_RenewUser_def deliver_def split_beta split: option.splits)

lemma proxied_RevokeUser:
  "fst (databasePluginRPCClient_RevokeUser (served_by impl) s u h)
     = fst (RevokeUser impl s u (remote h))"
  "remote (snd (databasePluginRPCClient_RevokeUser (served_by impl) s u h))
     = snd (RevokeUser impl s u (remote h))"
  by (simp_all add: databasePluginRPCClient_RevokeUser_def rpc_Client_Call_def served_by_def
        databasePluginRPCServer_RevokeUser_def deliver_def split_beta split: option.splits)

lemma proxied_Initialize:
  "fst (databasePluginRPCClient_Initialize (served_by impl) conf h)
     = fst (Initialize impl conf (remote h))"
  "remote (snd (databasePluginRPCClient_Initialize (served_by impl) conf h))
     = snd (Initialize impl conf (remote h))"
  by (simp_all add: databasePluginRPCClient_Initialize_def rpc_Client_Call_def served_by_def
        databasePluginRPCServer_Initialize_def deliver_def split_beta split: option.splits)

lemma proxied_GenerateUsername:
  "fst (databasePluginRPCClient_GenerateUsername (served_by impl) d h)
     = (let (username, err) = fst (GenerateUsername impl d (remote h))
        in (if err = None then username else [], err))"
  "remote (snd (databasePluginRPCClient_GenerateUsername (served_by impl) d h))
     = snd (GenerateUsername impl d (remote h))"
  by (simp_all add: databasePluginRPCClient_GenerateUsername_def rpc_Client_Call_def served_by_def
        databasePluginRPCServer_GenerateUsername_def deliver_def split_beta split: option.splits)

lemma proxied_GeneratePassword:
  "fst (databasePluginRPCClient_GeneratePassword (served_by impl) h)
     = (let (password, err) = fst (GeneratePassword impl (remote h))
        in (if err = None then password else [], err))"
  "remote (snd (databasePluginRPCClient_GeneratePassword (served_by impl) h))
     = snd (GeneratePassword impl (remote h))"
  by (simp_all add: databasePluginRPCClient_GeneratePassword_def rpc_Client_Call_def served_by_def
        databasePluginRPCServer_GeneratePassword_def deliver_def split_beta split: option.splits)

lemma proxied_GenerateExpiration:
  "fst (databasePluginRPCClient_GenerateExpiration (served_by impl) t h)
     = (let (expiration, err) = fst (GenerateExpiration impl t (remote h))
        in (if err = None then expiration else [], err))"
  "remote (snd (databasePluginRPCClient_GenerateExpiration (served_by impl) t h))
     = snd (GenerateExpiration impl t (remote h))"
  by (simp_all add: databasePluginRPCClient_GenerateExpiration_def rpc_Client_Call_def served_by_def
        databasePluginRPCServer_GenerateExpiration_def deliver_def split_beta split: option.splits)

text \<open>
  C7, amended. For every implementation, over a connection that hands every call to the
  server stub: \<^verbatim>\<open>Type()\<close> through the client stub is \<^verbatim>\<open>plugin-\<close> followed by the
  implementation's type string; \<^verbatim>\<open>CreateUser\<close>, \<^verbatim>\<open>RenewUser\<close>, \<^verbatim>\<open>RevokeUser\<close> and
  \<^verbatim>\<open>Initialize\<close> return the implementation's error; the three generators return the
  implementation's error, and its string when the error is nil (the empty string
  otherwise); and each of these leaves the implementation in the state the direct call
  leaves it in.
\<close>

theorem proxied_handle_agrees:
  "fst (databasePluginRPCClient_Type (served_by impl) h) = ''plugin-'' @ fst (Type impl (remote h))
   \<and> remote (snd (databasePluginRPCClient_Type (served_by impl) h)) = snd (Type impl (remote h))
   \<and> fst (databasePluginRPCClient_CreateUser (served_by impl) s u p e h)
       = fst (CreateUser impl s u p e (remote h))
   \<and> remote (snd (databasePluginRPCClient_CreateUser (served_by impl) s u p e h))
       = snd (CreateUser impl s u p e (remote h))
   \<and> fst (databasePluginRPCClient_RenewUser (served_by impl) s u e h)
       = fst (RenewUser impl s u e (remote h))
   \<and> remote (snd (databasePluginRPCClient_RenewUser (served_by impl) s u e h))
       = snd (RenewUser impl s u e (remote h))
   \<and> fst (databasePluginRPCClient_RevokeUser (served_by impl) s u h)
       = fst (RevokeUser impl s u (remote h))
   \<and> remote (snd (databasePluginRPCClient_RevokeUser (served_by impl) s u h))
       = snd (RevokeUser impl s u (remote h))
   \<and> fst (databasePluginRPCClient_Initialize (served_by impl) conf h)
       = fst (Initialize impl conf (remote h))
   \<and> remote (snd (databasePluginRPCClient_Initialize (served_by impl) conf h))
       = snd (Initialize impl conf (remote h))
   \<and> fst (databasePluginRPCClient_GenerateUsername (served_by impl) d h)
       = (let (username, err) = fst (GenerateUsername impl d (remote h))
          in (if err = None then username else [], err))
   \<and> remote (snd (databasePluginRPCClient_GenerateUsername (served_by impl) d h))
       = snd (GenerateUsername impl d (remote h))
   \<and> fst (databasePluginRPCClient_GeneratePassword (served_by impl) h)
       = (let (password, err) = fst (GeneratePassword impl (remote h))
          in (if err = None then password else [], err))
   \<and> remote (snd (databasePluginRPCClient_GeneratePassword (served_by impl) h))
       = snd (GeneratePassword impl (remote h))
   \<and> fst (databasePluginRPCClient_GenerateExpiration (served_by impl) t h)
       = (let (expiration, err) = fst (GenerateExpiration impl t (remote h))
          in (if err = None then expiration else [], err))
   \<and> remote (snd (databasePluginRPCClient_GenerateExpiration (served_by impl) t h))
       = snd (GenerateExpiration impl t (remote h))"
  by (simp only: proxied_Type proxied_CreateUser proxied_RenewUser proxied_RevokeUser
        proxied_Initialize proxied_GenerateUsername proxied_GeneratePassword
        proxied_GenerateExpiration simp_thms)

section \<open>Properties of the credentials path\<close>

lemma StrListContains_set: "StrListContains haystack needle = (needle \<in> set haystack)"
  by (induction haystack) auto

text \<open>
  An error of the role lookup or of the configuration lookup is returned as it is,
  before anything else is done.
\<close>

lemma pathCredsCreateRead_config_error:
  assumes "b_Role b (Storage req) name = (Some role, None)"
    and "b_DatabaseConfig b (Storage req) (DBName role) = (config, Some err)"
  shows "pathCredsCreateRead b now req name st = (Return (None, Some err), st, [])"
  using assms by (simp add: pathCredsCreateRead_def split: option.splits)

lemma pathCredsCreateRead_denied:
  assumes "b_Role b (Storage req) name = (Some role, None)"
    and "b_DatabaseConfig b (Storage req) (DBName role) = (Some dbConfig, None)"
    and "''*'' \<notin> set (AllowedRoles dbConfig)" and "name \<notin> set (AllowedRoles dbConfig)"
  shows "pathCredsCreateRead b now req name st = (Return (None, Some ErrPermissionDenied), st, [])"
  using assms by (simp add: pathCredsCreateRead_def StrListContains_set)

lemma pathCredsCreateRead_secret_only_if:
  assumes "fst (pathCredsCreateRead b now req name st)
             = Return (Some (SecretResponse payload internal ttl), None)"
  shows "\<exists>role dbConfig.
           b_Role b (Storage req) name = (Some role, None)
           \<and> b_DatabaseConfig b (Storage req) (DBName role) = (Some dbConfig, None)
           \<and> (''*'' \<in> set (AllowedRoles dbConfig) \<or> name \<in> set (AllowedRoles dbConfig))"
proof -
  obtain r re where R: "b_Role b (Storage req) name = (r, re)" by (cases "b_Role b (Storage req) name")
  with assms obtain role where role: "r = Some role" "re = None"
    by (cases r; cases re) (auto simp: pathCredsCreateRead_def)
  obtain c ce where C: "b_DatabaseConfig b (Storage req) (DBName role) = (c, ce)"
    by (cases "b_DatabaseConfig b (Storage req) (DBName role)")
  with assms R role obtain dbConfig where cfg: "c = Some dbConfig" "ce = None"
    by (cases c; cases ce) (auto simp: pathCredsCreateRead_def)
  have "''*'' \<in> set (AllowedRoles dbConfig) \<or> name \<in> set (AllowedRoles dbConfig)"
  proof (rule ccontr)
    assume "\<not> ?thesis"
    then have "pathCredsCreateRead b now req name st = (Return (None, Some ErrPermissionDenied), st, [])"
      using pathCredsCreateRead_denied [of b req name role dbConfig now st] R role C cfg by simp
    with assms show False by simp
  qed
  with R role C cfg show ?thesis by simp
qed

text \<open>
  C1. When the role and its configuration are found and the configuration's allowed roles
  hold neither \<^verbatim>\<open>*\<close> nor the role's name, the handler returns \<^verbatim>\<open>ErrPermissionDenied\<close>, the
  backend's state is as before and no action was taken: no lock, no request for the
  database object, no \<^verbatim>\<open>CreateUser\<close>. And the handler returns a secret response only when
  the role and its configuration are found and the allowed roles hold \<^verbatim>\<open>*\<close> or the name.
\<close>

theorem pathCredsCreateRead_permission:
  "(b_Role b (Storage req) name = (Some role, None) \<longrightarrow>
    b_DatabaseConfig b (Storage req) (DBName role) = (Some dbConfig, None) \<longrightarrow>
    ''*'' \<notin> set (AllowedRoles dbConfig) \<longrightarrow> name \<notin> set (AllowedRoles dbConfig) \<longrightarrow>
      pathCredsCreateRead b now req name st = (Return (None, Some ErrPermissionDenied), st, []))
   \<and> (fst (pathCredsCreateRead b now req name st)
         = Return (Some (SecretResponse payload internal ttl), None) \<longrightarrow>
       (\<exists>role' dbConfig'.
           b_Role b (Storage req) name = (Some role', None)
           \<and> b_DatabaseConfig b (Storage req) (DBName role') = (Some dbConfig', None)
           \<and> (''*'' \<in> set (AllowedRoles dbConfig') \<or> name \<in> set (AllowedRoles dbConfig'))))"
  using pathCredsCreateRead_denied [of b req name role dbConfig now st]
        pathCredsCreateRead_secret_only_if [of b now req name st payload internal ttl]
  by blast

lemma exampleBackend_Role:
  "b_Role exampleBackend (Storage (exampleRequest allowed)) ''readonly'' = (Some exampleRole, None)"
  by (simp add: exampleBackend_def backend_over_def getRole_def exampleRequest_def
        exampleStorage_def)

lemma exampleBackend_DatabaseConfig:
  "b_DatabaseConfig exampleBackend (Storage (exampleRequest allowed)) (DBName exampleRole)
     = (Some \<lparr>AllowedRoles = allowed\<rparr>, None)"
  by (simp add: exampleBackend_def backend_over_def getDatabaseConfig_def exampleRequest_def
        exampleStorage_def exampleRole_def)

lemma exampleBackend_getOrCreateDBObj:
  "b_getOrCreateDBObj exampleBackend s n st = ((Some stubDB, None), st)"
  by (simp add: exampleBackend_def backend_over_def stubGetOrCreate_def)

lemma stubDB_CreateUser:
  "db_CreateUser stubDB s d e st = ((''alice'', ''p@ss'', None), d # st)"
  by (simp add: stubDB_def)

lemma exampleBackend_issues:
  "pathCredsCreateRead exampleBackend 1000 (exampleRequest [''*'']) ''readonly'' [] =
     (Return (Some (SecretResponse
        [''username'' \<mapsto> ''alice'', ''password'' \<mapsto> ''p@ss'']
        [''username'' \<mapsto> ''alice'', ''role'' \<mapsto> ''readonly''] 3600), None),
      [''token-web''],
      [Lock, GetOrCreateDBObj ''pg'', CreateUserCall exampleStatements ''token-web'' 4600, Unlock])"
  by (simp add: pathCredsCreateRead_def exampleBackend_Role exampleBackend_DatabaseConfig
        exampleBackend_getOrCreateDBObj stubDB_CreateUser)
     (simp add: exampleRole_def exampleRequest_def)

theorem pathCredsCreateRead_permission_witness:
  "pathCredsCreateRead exampleBackend 1000 (exampleRequest [''admin'', ''readwrite'']) ''readonly'' []
     = (Return (None, Some ErrPermissionDenied), [], [])
   \<and> fst (pathCredsCreateRead exampleBackend 1000 (exampleRequest [''*'']) ''readonly'' [])
     = Return (Some (SecretResponse
        [''username'' \<mapsto> ''alice'', ''password'' \<mapsto> ''p@ss'']
        [''username'' \<mapsto> ''alice'', ''role'' \<mapsto> ''readonly''] 3600), None)
   \<and> (\<exists>role' dbConfig'.
         b_Role exampleBackend (Storage (exampleRequest [''*''])) ''readonly'' = (Some role', None)
         \<and> b_DatabaseConfig exampleBackend (Storage (exampleRequest [''*''])) (DBName role')
             = (Some dbConfig', None)
         \<and> (''*'' \<in> set (AllowedRoles dbConfig') \<or> ''readonly'' \<in> set (AllowedRoles dbConfig')))"
proof -
  have denied: "''*'' \<notin> set (AllowedRoles \<lparr>AllowedRoles = [''admin'', ''readwrite'']\<rparr>)
                \<and> ''readonly'' \<notin> set (AllowedRoles \<lparr>AllowedRoles = [''admin'', ''readwrite'']\<rparr>)"
    by simp
  have issued: "fst (pathCredsCreateRead exampleBackend 1000 (exampleRequest [''*'']) ''readonly'' [])
     = Return (Some (SecretResponse
        [''username'' \<mapsto> ''alice'', ''password'' \<mapsto> ''p@ss'']
        [''username'' \<mapsto> ''alice'', ''role'' \<mapsto> ''readonly''] 3600), None)"
    by (simp add: exampleBackend_issues)
  from pathCredsCreateRead_permission
         [of exampleBackend "exampleRequest [''admin'', ''readwrite'']" "''readonly''" exampleRole
             "\<lparr>AllowedRoles = [''admin'', ''readwrite'']\<rparr>" 1000 "[]"]
       exampleBackend_Role exampleBackend_DatabaseConfig denied
  have a: "pathCredsCreateRead exampleBackend 1000 (exampleRequest [''admin'', ''readwrite''])
             ''readonly'' [] = (Return (None, Some ErrPermissionDenied), [], [])"
    by blast
  from pathCredsCreateRead_permission
         [of exampleBackend "exampleRequest [''*'']" "''readonly''" _ _ 1000 "[]"
             "[''username'' \<mapsto> ''alice'', ''password'' \<mapsto> ''p@ss'']"
             "[''username'' \<mapsto> ''alice'', ''role'' \<mapsto> ''readonly'']" 3600]
       issued
  have b: "\<exists>role' dbConfig'.
         b_Role exampleBackend (Storage (exampleRequest [''*''])) ''readonly'' = (Some role', None)
         \<and> b_DatabaseConfig exampleBackend (Storage (exampleRequest [''*''])) (DBName role')
             = (Some dbConfig', None)
         \<and> (''*'' \<in> set (AllowedRoles dbConfig') \<or> ''readonly'' \<in> set (AllowedRoles dbConfig'))"
    by blast
  from a issued b show ?thesis by blast
qed

text \<open>
  C2, as the claim states it, fails: the handler sends \<^verbatim>\<open>CreateUser\<close> the caller's display
  name, not a generated username and password, and answers with the username and
  password \<^verbatim>\<open>CreateUser\<close> returned. Here the database object's \<^verbatim>\<open>GenerateUsername\<close> gives
  \<^verbatim>\<open>v-token-web\<close> for the display name and its \<^verbatim>\<open>GeneratePassword\<close> gives \<^verbatim>\<open>A1a-generated\<close>;
  \<^verbatim>\<open>CreateUser\<close> is called once, with the display name \<^verbatim>\<open>token-web\<close>, and the response
  holds \<^verbatim>\<open>alice\<close> and \<^verbatim>\<open>p@ss\<close>.
\<close>

theorem pathCredsCreateRead_generated_counterexample:
  "fst (db_GenerateUsername stubDB ''token-web'' []) = (''v-token-web'', None)
   \<and> fst (db_GeneratePassword stubDB []) = (''A1a-generated'', None)
   \<and> pathCredsCreateRead exampleBackend 1000 (exampleRequest [''*'']) ''readonly'' [] =
       (Return (Some (SecretResponse
          [''username'' \<mapsto> ''alice'', ''password'' \<mapsto> ''p@ss'']
          [''username'' \<mapsto> ''alice'', ''role'' \<mapsto> ''readonly''] 3600), None),
        [''token-web''],
        [Lock, GetOrCreateDBObj ''pg'', CreateUserCall exampleStatements ''token-web'' 4600, Unlock])"
  by (simp add: exampleBackend_issues) (simp add: stubDB_def)

text \<open>
  C2, amended. When the role, the configuration and the allowed-roles check pass, the
  database object is obtained and its \<^verbatim>\<open>CreateUser\<close>, called with the role's statements,
  the caller's display name and the expiration (now plus the role's default TTL),
  succeeds with a username and a password: the handler takes the lock, asks for the
  database object, makes that one call and releases the lock, and its response carries
  the payload {username, password}, the internal data {username, role name} and the
  role's default TTL.
\<close>

theorem pathCredsCreateRead_response:
  assumes "b_Role b (Storage req) name = (Some role, None)"
    and "b_DatabaseConfig b (Storage req) (DBName role) = (Some dbConfig, None)"
    and "''*'' \<in> set (AllowedRoles dbConfig) \<or> name \<in> set (AllowedRoles dbConfig)"
    and "b_getOrCreateDBObj b (Storage req) (DBName role) st = ((Some db, None), st1)"
    and "db_CreateUser db (Statements role) (DisplayName req) (now + DefaultTTL role) st1
           = ((username, password, None), st2)"
  shows "pathCredsCreateRead b now req name st =
           (Return (Some (SecretResponse
              [''username'' \<mapsto> username, ''password'' \<mapsto> password]
              [''username'' \<mapsto> username, ''role'' \<mapsto> name]
              (DefaultTTL role)), None),
            st2,
            [Lock, GetOrCreateDBObj (DBName role),
             CreateUserCall (Statements role) (DisplayName req) (now + DefaultTTL role), Unlock])"
  using assms by (auto simp: pathCredsCreateRead_def StrListContains_set)

theorem pathCredsCreateRead_response_witness:
  "pathCredsCreateRead exampleBackend 1000 (exampleRequest [''admin'', ''readonly'']) ''readonly'' [] =
     (Return (Some (SecretResponse
        [''username'' \<mapsto> ''alice'', ''password'' \<mapsto> ''p@ss'']
        [''username'' \<mapsto> ''alice'', ''role'' \<mapsto> ''readonly''] 3600), None),
      [''token-web''],
      [Lock, GetOrCreateDBObj ''pg'', CreateUserCall exampleStatements ''token-web'' 4600, Unlock])"
proof -
  have allowed: "''*'' \<in> set (AllowedRoles \<lparr>AllowedRoles = [''admin'', ''readonly'']\<rparr>)
                 \<or> ''readonly'' \<in> set (AllowedRoles \<lparr>AllowedRoles = [''admin'', ''readonly'']\<rparr>)"
    by simp
  from pathCredsCreateRead_response
         [OF exampleBackend_Role exampleBackend_DatabaseConfig allowed
             exampleBackend_getOrCreateDBObj stubDB_CreateUser, of 1000 "[]"]
  show ?thesis by (simp add: exampleRole_def exampleRequest_def)
qed

text \<open>
  C3. Over a storage whose configuration lookup reports a missing name as
  \<^verbatim>\<open>NotFoundConfig\<close>: when the role is found and storage holds no configuration under the
  name the role refers to, the handler returns that error, the backend's state is as
  before and no action was taken: the allowed roles are not looked at, the lock is not
  taken, the database object is not asked for and \<^verbatim>\<open>CreateUser\<close> is not called.
\<close>

theorem pathCredsCreateRead_missing_config:
  assumes "role_lookup (Storage req) name = (Some role, None)"
    and "configs (Storage req) (DBName role) = None"
  shows "pathCredsCreateRead (backend_over role_lookup getOrCreate) now req name st
           = (Return (None, Some NotFoundConfig), st, [])"
proof -
  have "b_DatabaseConfig (backend_over role_lookup getOrCreate) (Storage req) (DBName role)
          = (None, Some NotFoundConfig)"
    using assms(2) by (simp add: backend_over_def getDatabaseConfig_def)
  moreover have "b_Role (backend_over role_lookup getOrCreate) (Storage req) name = (Some role, None)"
    using assms(1) by (simp add: backend_over_def)
  ultimately show ?thesis by (rule pathCredsCreateRead_config_error [rotated])
qed

theorem pathCredsCreateRead_missing_config_witness:
  "pathCredsCreateRead (backend_over getRole stubGetOrCreate) 1000
       \<lparr>Storage = danglingStorage, DisplayName = ''token-web''\<rparr> ''readonly'' [''bob'']
     = (Return (None, Some NotFoundConfig), [''bob''], [])"
proof -
  have r: "getRole (Storage \<lparr>Storage = danglingStorage, DisplayName = ''token-web''\<rparr>) ''readonly''
             = (Some exampleRole, None)"
    by (simp add: getRole_def danglingStorage_def)
  have c: "configs (Storage \<lparr>Storage = danglingStorage, DisplayName = ''token-web''\<rparr>)
             (DBName exampleRole) = None"
    by (simp add: danglingStorage_def)
  from pathCredsCreateRead_missing_config
         [where role_lookup = getRole and getOrCreate = stubGetOrCreate and now = 1000
            and req = "\<lparr>Storage = danglingStorage, DisplayName = ''token-web''\<rparr>"
            and name = "''readonly''" and role = exampleRole and st = "[''bob'']", OF r c]
  show ?thesis .
qed

end
